theory Spec2Isabelle
  imports Main "HOL-Library.Word" "HOL-Library.Multiset"
begin

section \<open>The header chain engine of go-quai (core/headerchain.go)\<close>

text \<open>
  A shallow embedding of \<^verbatim>\<open>core/headerchain.go\<close> and of
  \<^verbatim>\<open>core/types/gen_header_json.go\<close>. Each Go method of \<^verbatim>\<open>HeaderChain\<close> becomes a
  function that takes the engine state and returns the result together with the new state.
  A Go \<^verbatim>\<open>error\<close> return, a panic (nil dereference, index out of range) and a normal
  return are the three constructors of \<open>result\<close>. The unbounded loops of \<^verbatim>\<open>trim\<close>,
  \<^verbatim>\<open>trimBranch\<close> and \<^verbatim>\<open>GetAncestorByLocation\<close> are \<^theory_text>\<open>partial_function (option)\<close>:
  a loop that never leaves is the value \<open>None\<close>.
\<close>

subsection \<open>Values\<close>

type_synonym hash = "256 word"   \<comment> \<open>\<^verbatim>\<open>common.Hash\<close>, 32 bytes\<close>
type_synonym uint64 = "64 word"
type_synonym byte = "8 word"

datatype 'a result = Ok 'a | Error string | Panic string

text \<open>
  \<^verbatim>\<open>big.Int.Uint64()\<close>: the low 64 bits of the magnitude.
\<close>

definition Uint64 :: "int \<Rightarrow> uint64" where
  "Uint64 x = word_of_int \<bar>x\<bar>"

text \<open>
  Modelled from the spec: the declaration of \<^verbatim>\<open>types.Header\<close> and its methods \<^verbatim>\<open>Hash()\<close>,
  \<^verbatim>\<open>Parent()\<close> and \<^verbatim>\<open>Number64()\<close> are not part of the sources at hand. In the spec a header
  has, for every tier, a parent hash and a number (an arbitrary-precision integer), and a
  location shared by the tiers; its hash is its identity; a designated network context
  selects the tier the engine uses when it needs ``the'' number. The engine reads a header
  only through \<^verbatim>\<open>Hash()\<close>, \<^verbatim>\<open>ParentHash[types.QuaiNetworkContext]\<close> (also \<^verbatim>\<open>Parent()\<close>),
  \<^verbatim>\<open>Number[types.QuaiNetworkContext]\<close> (also \<^verbatim>\<open>Number64()\<close>) and \<^verbatim>\<open>Location\<close>; the record
  holds these four, the per-tier fields at the network context tier. \<open>hdr_hash\<close> is the
  value of \<^verbatim>\<open>Hash()\<close>.
\<close>

record header =
  hdr_hash :: hash
  ParentHash :: hash
  Number :: int
  Location :: "byte list"

definition Number64 :: "header \<Rightarrow> uint64" where
  "Number64 h = Uint64 (Number h)"

definition Parent :: "header \<Rightarrow> hash" where
  "Parent h = ParentHash h"

text \<open>A total difficulty is a \<^verbatim>\<open>[]*big.Int\<close>: every entry is a pointer, \<open>None\<close> is nil.\<close>

type_synonym td = "int option list"

record block =
  blockHeader :: header

subsection \<open>The LRU caches (hashicorp/golang-lru)\<close>

text \<open>
  A cache is the list of its entries, most recently used first. \<^verbatim>\<open>Get\<close> moves the entry
  it finds to the front; \<^verbatim>\<open>Add\<close> puts the entry at the front and drops the least recently
  used ones beyond the capacity.
\<close>

type_synonym ('k, 'v) lru = "('k \<times> 'v) list"

definition lru_Get :: "('k, 'v) lru \<Rightarrow> 'k \<Rightarrow> 'v option \<times> ('k, 'v) lru" where
  "lru_Get c k =
     (case map_of c k of
        None \<Rightarrow> (None, c)
      | Some v \<Rightarrow> (Some v, (k, v) # filter (\<lambda>p. fst p \<noteq> k) c))"

definition lru_Add :: "nat \<Rightarrow> ('k, 'v) lru \<Rightarrow> 'k \<Rightarrow> 'v \<Rightarrow> ('k, 'v) lru" where
  "lru_Add cap c k v = take cap ((k, v) # filter (\<lambda>p. fst p \<noteq> k) c)"

definition headerCacheLimit :: nat where "headerCacheLimit = 512"
definition tdCacheLimit :: nat where "tdCacheLimit = 1024"
definition numberCacheLimit :: nat where "numberCacheLimit = 2048"

subsection \<open>The header store (rawdb over the key-value database)\<close>

text \<open>
  Modelled from the spec: the package \<^verbatim>\<open>rawdb\<close> and the key-value database are not part of
  the sources at hand. The spec has the store address the mappings independently: headers by
  hash and number, the reverse map from hash to number, total difficulties by hash and
  number.
\<close>

record db =
  headers :: "hash \<times> uint64 \<rightharpoonup> header"
  headerNumbers :: "hash \<rightharpoonup> uint64"
  tds :: "hash \<times> uint64 \<rightharpoonup> td"

text \<open>Modelled from the spec: \<^verbatim>\<open>rawdb.ReadHeader\<close>, ``ReadHeader(hash, number)'', nil if absent.\<close>

definition ReadHeader :: "db \<Rightarrow> hash \<Rightarrow> uint64 \<Rightarrow> header option" where
  "ReadHeader d h n = headers d (h, n)"

text \<open>Modelled from the spec: \<^verbatim>\<open>rawdb.ReadHeaderNumber\<close>, ``ReadHeaderNumber(hash)'', nil if absent.\<close>

definition ReadHeaderNumber :: "db \<Rightarrow> hash \<Rightarrow> uint64 option" where
  "ReadHeaderNumber d h = headerNumbers d h"

text \<open>Modelled from the spec: \<^verbatim>\<open>rawdb.ReadTd\<close>, ``ReadTd(hash, number)'', nil if absent.\<close>

definition ReadTd :: "db \<Rightarrow> hash \<Rightarrow> uint64 \<Rightarrow> td option" where
  "ReadTd d h n = tds d (h, n)"

text \<open>
  Modelled from the spec: \<^verbatim>\<open>rawdb.WriteHeader\<close> with the commit of its batch. The reverse
  map agrees with every persisted header (invariant I1), so writing a header records its
  number under its hash.
\<close>

definition WriteHeader :: "db \<Rightarrow> header \<Rightarrow> db" where
  "WriteHeader d hdr =
     d\<lparr>headers := (headers d)((hdr_hash hdr, Number64 hdr) \<mapsto> hdr),
       headerNumbers := (headerNumbers d)(hdr_hash hdr \<mapsto> Number64 hdr)\<rparr>"

text \<open>
  Modelled from the spec: \<^verbatim>\<open>rawdb.DeleteHeader\<close>, ``DeleteHeader(store, hash, number)'', an
  unconditional delete of the header and of the number recorded under its hash.
\<close>

definition DeleteHeader :: "db \<Rightarrow> hash \<Rightarrow> uint64 \<Rightarrow> db" where
  "DeleteHeader d h n =
     d\<lparr>headers := (headers d)((h, n) := None),
       headerNumbers := (headerNumbers d)(h := None)\<rparr>"

subsection \<open>The engine state and its readers\<close>

text \<open>
  The writers name the database \<^verbatim>\<open>hc.headerDb\<close>, the readers of headers and total
  difficulties \<^verbatim>\<open>hc.chainDb\<close>. The struct has the field \<^verbatim>\<open>headerDb\<close> only, and the
  constructor hands one database to the engine; the model has one store.
\<close>

record headerChain =
  headerDb :: db
  headerCache :: "(hash, header) lru"
  tdCache :: "(hash, td) lru"
  numberCache :: "(hash, uint64) lru"
  heads :: "header list"

definition GetBlockNumber :: "headerChain \<Rightarrow> hash \<Rightarrow> uint64 option \<times> headerChain" where
  "GetBlockNumber hc h =
     (case lru_Get (numberCache hc) h of
        (Some cached, c) \<Rightarrow> (Some cached, hc\<lparr>numberCache := c\<rparr>)
      | (None, c) \<Rightarrow>
          (case ReadHeaderNumber (headerDb hc) h of
             None \<Rightarrow> (None, hc)
           | Some number \<Rightarrow>
               (Some number, hc\<lparr>numberCache := lru_Add numberCacheLimit (numberCache hc) h number\<rparr>)))"

definition GetHeader :: "headerChain \<Rightarrow> hash \<Rightarrow> uint64 \<Rightarrow> header option \<times> headerChain" where
  "GetHeader hc h n =
     (case lru_Get (headerCache hc) h of
        (Some hdr, c) \<Rightarrow> (Some hdr, hc\<lparr>headerCache := c\<rparr>)
      | (None, c) \<Rightarrow>
          (case ReadHeader (headerDb hc) h n of
             None \<Rightarrow> (None, hc)
           | Some hdr \<Rightarrow>
               (Some hdr, hc\<lparr>headerCache := lru_Add headerCacheLimit (headerCache hc) h hdr\<rparr>)))"

definition GetHeaderByHash :: "headerChain \<Rightarrow> hash \<Rightarrow> header option \<times> headerChain" where
  "GetHeaderByHash hc h =
     (case GetBlockNumber hc h of
        (None, hc') \<Rightarrow> (None, hc')
      | (Some number, hc') \<Rightarrow> GetHeader hc' h number)"

definition GetTd :: "headerChain \<Rightarrow> hash \<Rightarrow> uint64 \<Rightarrow> td \<times> headerChain" where
  "GetTd hc h n =
     (case lru_Get (tdCache hc) h of
        (Some cached, c) \<Rightarrow> (cached, hc\<lparr>tdCache := c\<rparr>)
      | (None, c) \<Rightarrow>
          (case ReadTd (headerDb hc) h n of
             None \<Rightarrow> (replicate 3 None, hc)
           | Some t \<Rightarrow> (t, hc\<lparr>tdCache := lru_Add tdCacheLimit (tdCache hc) h t\<rparr>)))"

definition GetTdByHash :: "headerChain \<Rightarrow> hash \<Rightarrow> td \<times> headerChain" where
  "GetTdByHash hc h =
     (case GetBlockNumber hc h of
        (None, hc') \<Rightarrow> (replicate 3 None, hc')
      | (Some number, hc') \<Rightarrow> GetTd hc' h number)"

text \<open>
  \<^verbatim>\<open>CheckLocationRange\<close>. \<^verbatim>\<open>params.FullerOntology\<close> is not part of the sources at hand;
  its first two entries are the parameters \<open>regionMax\<close> and \<open>zoneMax\<close>. Reading
  \<^verbatim>\<open>location[i]\<close> beyond the slice panics. Go's \<^verbatim>\<open>||\<close> evaluates left to right and the
  first \<^verbatim>\<open>if\<close> returns before \<^verbatim>\<open>location[1]\<close> is read.
\<close>

definition slice_index :: "'a list \<Rightarrow> nat \<Rightarrow> 'a result" where
  "slice_index xs i = (if i < length xs then Ok (xs ! i) else Panic ''index out of range'')"

definition CheckLocationRange :: "int \<Rightarrow> int \<Rightarrow> byte list \<Rightarrow> unit result" where
  "CheckLocationRange regionMax zoneMax location =
     (case slice_index location 0 of
        Panic p \<Rightarrow> Panic p
      | Error e \<Rightarrow> Error e
      | Ok r \<Rightarrow>
          if uint r < 1 \<or> uint r > regionMax
          then Error ''the provided location is outside the allowable region range''
          else (case slice_index location 1 of
                  Panic p \<Rightarrow> Panic p
                | Error e \<Rightarrow> Error e
                | Ok z \<Rightarrow>
                    if uint z < 1 \<or> uint z > zoneMax
                    then Error ''the provided location is outside the allowable zone range''
                    else Ok ()))"

text \<open>
  \<^verbatim>\<open>GetAncestorByLocation\<close>. Both guards read \<^verbatim>\<open>header != nil\<close>. The \<^verbatim>\<open>header\<close> assigned
  inside the loop is a new variable of the loop body (\<^verbatim>\<open>:=\<close>), so the loop condition keeps
  reading the outer one; \<^verbatim>\<open>header.Location\<close> on a nil header is a nil pointer dereference.
\<close>

partial_function (option) ancestorLoop ::
  "headerChain \<Rightarrow> header option \<Rightarrow> byte list \<Rightarrow> (header result \<times> headerChain) option" where
  "ancestorLoop hc header location =
     (case header of
        None \<Rightarrow> Some (Panic ''nil pointer dereference'', hc)
      | Some hdr \<Rightarrow>
          if Location hdr = location then Some (Ok hdr, hc)
          else (case GetHeaderByHash hc (ParentHash hdr) of
                  (Some inner, hc') \<Rightarrow> Some (Error ''error finding header by hash'', hc')
                | (None, hc') \<Rightarrow> ancestorLoop hc' header location))"

definition GetAncestorByLocation ::
  "headerChain \<Rightarrow> hash \<Rightarrow> byte list \<Rightarrow> (header result \<times> headerChain) option" where
  "GetAncestorByLocation hc h location =
     (case GetHeaderByHash hc h of
        (Some header, hc') \<Rightarrow> Some (Error ''error finding header by hash'', hc')
      | (None, hc') \<Rightarrow> ancestorLoop hc' None location)"

subsection \<open>Trimming\<close>

text \<open>
  \<^verbatim>\<open>trim\<close>. The executor's \<^verbatim>\<open>Trim\<close> discards block state outside the header store and
  has no part in the model. A parent that cannot be loaded ends the walk with a warning and
  a nil error.
\<close>

partial_function (option) trim ::
  "headerChain \<Rightarrow> header \<Rightarrow> header \<Rightarrow> (unit result \<times> headerChain) option" where
  "trim hc commonHeader parent =
     (if hdr_hash parent = hdr_hash commonHeader then Some (Ok (), hc)
      else
        (case GetHeader
                (hc\<lparr>headerDb := DeleteHeader (headerDb hc) (hdr_hash parent) (Number64 parent)\<rparr>)
                (Parent parent) (Number64 parent - 1) of
           (None, hc') \<Rightarrow> Some (Ok (), hc')
         | (Some p, hc') \<Rightarrow> trim hc' commonHeader p))"

text \<open>
  The first loop of \<^verbatim>\<open>trimBranch\<close> assigns the parent to \<^verbatim>\<open>newHeader\<close> without a nil
  check; the next \<^verbatim>\<open>newHeader.Number64()\<close> on nil panics.
\<close>

partial_function (option) equaliseHeight ::
  "headerChain \<Rightarrow> uint64 \<Rightarrow> header \<Rightarrow> (header result \<times> headerChain) option" where
  "equaliseHeight hc startIndex newHeader =
     (if Number64 newHeader = startIndex then Some (Ok newHeader, hc)
      else
        (case GetHeader hc (ParentHash newHeader) (Number64 newHeader - 1) of
           (None, hc') \<Rightarrow> Some (Panic ''nil pointer dereference'', hc')
         | (Some p, hc') \<Rightarrow> equaliseHeight hc' startIndex p))"

text \<open>
  The second loop of \<^verbatim>\<open>trimBranch\<close>. Its body declares \<^verbatim>\<open>oldHeader := ...\<close> and
  \<^verbatim>\<open>newBlock := ...\<close>: both are variables of the loop body, and the \<^verbatim>\<open>oldHeader\<close> and
  \<^verbatim>\<open>newHeader\<close> that the loop condition compares are the same in every round.
\<close>

partial_function (option) commonAncestor ::
  "headerChain \<Rightarrow> header \<Rightarrow> header \<Rightarrow> (header result \<times> headerChain) option" where
  "commonAncestor hc oldHeader newHeader =
     (if hdr_hash oldHeader = hdr_hash newHeader then Some (Ok oldHeader, hc)
      else
        (case GetHeader hc (Parent oldHeader) (Number64 oldHeader - 1) of
           (None, hc1) \<Rightarrow> Some (Error ''invalid old chain'', hc1)
         | (Some oldHeader', hc1) \<Rightarrow>
             (case GetHeader hc1 (Parent newHeader) (Number64 newHeader - 1) of
                (None, hc2) \<Rightarrow> Some (Error ''invalid new chain'', hc2)
              | (Some newBlock, hc2) \<Rightarrow> commonAncestor hc2 oldHeader newHeader)))"

definition trimBranch ::
  "headerChain \<Rightarrow> header \<Rightarrow> header \<Rightarrow> (unit result \<times> headerChain) option" where
  "trimBranch hc oldHeader newHeader =
     (case equaliseHeight hc (Number64 oldHeader) newHeader of
        None \<Rightarrow> None
      | Some (Panic p, hc1) \<Rightarrow> Some (Panic p, hc1)
      | Some (Error e, hc1) \<Rightarrow> Some (Error e, hc1)
      | Some (Ok newHeader', hc1) \<Rightarrow>
          (case commonAncestor hc1 oldHeader newHeader' of
             None \<Rightarrow> None
           | Some (Panic p, hc2) \<Rightarrow> Some (Panic p, hc2)
           | Some (Error e, hc2) \<Rightarrow> Some (Error e, hc2)
           | Some (Ok commonHeader, hc2) \<Rightarrow> trim hc2 commonHeader oldHeader))"

subsection \<open>Append\<close>

text \<open>
  What \<^verbatim>\<open>Append\<close> takes from outside the file: the constant \<^verbatim>\<open>maxHeadsQueueLimit\<close>, the
  outcome of \<^verbatim>\<open>batch.Write()\<close> (\<open>Some\<close> error: nothing is committed), the executor's
  \<^verbatim>\<open>bc.Append\<close> (\<open>Some\<close> error: the block is rejected) and the library's \<^verbatim>\<open>sort.Slice\<close>,
  which takes the comparator. The executor keeps its own state; it does not write to the
  header store. The comparator of the source reads \<^verbatim>\<open>hc.heads[i]\<close> and \<^verbatim>\<open>bc.heads[j]\<close>; no
  \<^verbatim>\<open>bc\<close> is in scope there, and the model compares two entries of the receiver's queue. The
  lock \<^verbatim>\<open>headermu\<close> has no part in the model: one call runs at a time.
\<close>

record env =
  maxHeadsQueueLimit :: nat
  batchWrite :: "header \<Rightarrow> string option"
  bcAppend :: "block \<Rightarrow> string option"
  sortSlice :: "(header \<Rightarrow> header \<Rightarrow> bool) \<Rightarrow> header list \<Rightarrow> header list"

text \<open>The comparator that \<^verbatim>\<open>Append\<close> hands to \<^verbatim>\<open>sort.Slice\<close>.\<close>

definition headsLess :: "header \<Rightarrow> header \<Rightarrow> bool" where
  "headsLess a b \<longleftrightarrow> Number64 a < Number64 b"

text \<open>The tail of \<^verbatim>\<open>Append\<close>: push the header and sort the queue.\<close>

definition pushHead :: "env \<Rightarrow> headerChain \<Rightarrow> header \<Rightarrow> headerChain" where
  "pushHead ev hc hdr = hc\<lparr>heads := sortSlice ev headsLess (heads hc @ [hdr])\<rparr>"

definition Append :: "env \<Rightarrow> headerChain \<Rightarrow> block \<Rightarrow> (unit result \<times> headerChain) option" where
  "Append ev hc blk =
     (case batchWrite ev (blockHeader blk) of
        Some err \<Rightarrow> Some (Error err, hc)
      | None \<Rightarrow>
          (let hc1 = hc\<lparr>headerDb := WriteHeader (headerDb hc) (blockHeader blk)\<rparr> in
           case bcAppend ev blk of
             Some err \<Rightarrow>
               Some (Error err,
                     hc1\<lparr>headerDb := DeleteHeader (headerDb hc1) (hdr_hash (blockHeader blk))
                                        (Number64 (blockHeader blk))\<rparr>)
           | None \<Rightarrow>
               if length (heads hc1) = maxHeadsQueueLimit ev then
                 (if heads hc1 = [] then Some (Panic ''index out of range'', hc1)
                  else
                    (case trimBranch hc1 (heads hc1 ! 0)
                            (heads hc1 ! (maxHeadsQueueLimit ev - 1)) of
                       None \<Rightarrow> None
                     | Some (Panic p, hc2) \<Rightarrow> Some (Panic p, hc2)
                     | Some (Error e, hc2) \<Rightarrow> Some (Error e, hc2)
                     | Some (Ok u, hc2) \<Rightarrow>
                         Some (Ok (), pushHead ev (hc2\<lparr>heads := tl (heads hc2)\<rparr>)
                                        (blockHeader blk))))
               else Some (Ok (), pushHead ev hc1 (blockHeader blk))))"

text \<open>A run of appends in which every one returns nil.\<close>

fun AppendAll :: "env \<Rightarrow> headerChain \<Rightarrow> block list \<Rightarrow> headerChain option" where
  "AppendAll ev hc [] = Some hc"
| "AppendAll ev hc (b # bs) =
     (case Append ev hc b of
        Some (Ok u, hc') \<Rightarrow> AppendAll ev hc' bs
      | _ \<Rightarrow> None)"

subsection \<open>Walking towards genesis\<close>



text \<open>A freshly constructed engine over a database: empty caches, no heads.\<close>

definition emptyDb :: db where
  "emptyDb = \<lparr>headers = Map.empty, headerNumbers = Map.empty, tds = Map.empty\<rparr>"

definition newHeaderChain :: "db \<Rightarrow> headerChain" where
  "newHeaderChain d =
     \<lparr>headerDb = d, headerCache = [], tdCache = [], numberCache = [], heads = []\<rparr>"

declare ancestorLoop.simps [code] trim.simps [code] equaliseHeight.simps [code]
  commonAncestor.simps [code]

section \<open>The JSON codec of headers (core/types/gen_header_json.go)\<close>

text \<open>
  Modelled from the spec: the \<^verbatim>\<open>Header\<close> of this file keeps its fields private and is read
  through accessor methods; its declaration and the accessors are not part of the sources at
  hand. In the spec every per-tier field is a slice with one entry per tier. The record has
  the fields that \<^verbatim>\<open>UnmarshalJSON\<close> allocates and sets. A \<^verbatim>\<open>*big.Int\<close> is an \<open>int option\<close>
  and a slice that can be nil is a \<open>list option\<close> (\<open>None\<close> is nil). \<^verbatim>\<open>h.Difficulty(i)\<close> and
  the other per-tier accessors read entry \<open>i\<close> of the slice and panic beyond its length.
  \<^verbatim>\<open>common.HierarchyDepth\<close> is the parameter \<open>depth\<close>, \<^verbatim>\<open>h.Hash()\<close> the parameter \<open>hashOf\<close>.
\<close>

type_synonym address = "160 word"
type_synonym bloom = "2048 word"
type_synonym blockNonce = "64 word"

record jsonHeader =
  parentHash :: "hash list"
  uncleHash :: "hash list"
  coinbase :: "address list"
  root :: "hash list"
  txHash :: "hash list"
  etxHash :: "hash list"
  manifestHash :: "hash list"
  receiptHash :: "hash list"
  bloom :: "bloom list"
  difficulty :: "int option list"
  number :: "int option list"
  gasLimit :: "uint64 list"
  gasUsed :: "uint64 list"
  baseFee :: "int option list"
  location :: "byte list option"
  time :: uint64
  extra :: "byte list option"
  nonce :: blockNonce

text \<open>
  A JSON document. The text of a leaf (the hex strings of \<^verbatim>\<open>hexutil\<close> and \<^verbatim>\<open>common\<close>) is
  not part of the sources at hand: a leaf is the value it stands for, tagged with its kind.
\<close>

datatype json =
    JNull
  | JHash hash
  | JAddress address
  | JBloom bloom
  | JBig int
  | JUint64 uint64
  | JBytes "byte list"
  | JNonce blockNonce
  | JArray "json list"
  | JObject "(string \<times> json) list"

fun rbind :: "'a result \<Rightarrow> ('a \<Rightarrow> 'b result) \<Rightarrow> 'b result" where
  "rbind (Ok x) f = f x"
| "rbind (Error e) f = Error e"
| "rbind (Panic p) f = Panic p"

fun forTiers :: "(nat \<Rightarrow> 's \<Rightarrow> 's result) \<Rightarrow> nat list \<Rightarrow> 's \<Rightarrow> 's result" where
  "forTiers f [] s = Ok s"
| "forTiers f (i # rest) s = rbind (f i s) (forTiers f rest)"

definition nil_index :: "'a list option \<Rightarrow> nat \<Rightarrow> 'a result" where
  "nil_index xs i =
     (case xs of None \<Rightarrow> Panic ''index out of range'' | Some ys \<Rightarrow> slice_index ys i)"

text \<open>
  Go's \<^verbatim>\<open>copy(dst, src)\<close> copies as many elements as the shorter of the two has; a nil
  \<open>dst\<close> has length 0 and stays nil.
\<close>

definition copy :: "'a list option \<Rightarrow> 'a list \<Rightarrow> 'a list option" where
  "copy dst src = map_option (\<lambda>d. take (length d) src @ drop (length src) d) dst"

subsection \<open>MarshalJSON\<close>

record enc =
  enc_ParentHash :: "hash list option"
  enc_UncleHash :: "hash list option"
  enc_Coinbase :: "address list option"
  enc_Root :: "hash list option"
  enc_TxHash :: "hash list option"
  enc_EtxHash :: "hash list option"
  enc_ManifestHash :: "hash list option"
  enc_ReceiptHash :: "hash list option"
  enc_Bloom :: "bloom list option"
  enc_Difficulty :: "int option list option"
  enc_Number :: "int option list option"
  enc_GasLimit :: "uint64 list option"
  enc_GasUsed :: "uint64 list option"
  enc_BaseFee :: "int option list option"
  enc_Location :: "byte list option"
  enc_Time :: uint64
  enc_Extra :: "byte list option"
  enc_Nonce :: blockNonce
  enc_Hash :: hash

text \<open>\<^verbatim>\<open>var enc struct { ... }\<close>: every slice is nil, every scalar zero.\<close>

definition enc_zero :: enc where
  "enc_zero =
     \<lparr>enc_ParentHash = None, enc_UncleHash = None, enc_Coinbase = None, enc_Root = None,
      enc_TxHash = None, enc_EtxHash = None, enc_ManifestHash = None, enc_ReceiptHash = None,
      enc_Bloom = None, enc_Difficulty = None, enc_Number = None, enc_GasLimit = None,
      enc_GasUsed = None, enc_BaseFee = None, enc_Location = None, enc_Time = 0,
      enc_Extra = None, enc_Nonce = 0, enc_Hash = 0\<rparr>"

text \<open>The body of the loop of \<^verbatim>\<open>MarshalJSON\<close>, at tier \<open>i\<close>.\<close>

definition enc_tier :: "jsonHeader \<Rightarrow> nat \<Rightarrow> enc \<Rightarrow> enc result" where
  "enc_tier h i e =
     rbind (slice_index (difficulty h) i) (\<lambda>d.
     rbind (slice_index (number h) i) (\<lambda>n.
     rbind (slice_index (gasLimit h) i) (\<lambda>gl.
     rbind (slice_index (gasUsed h) i) (\<lambda>gu.
     rbind (slice_index (baseFee h) i) (\<lambda>bf.
       Ok (e\<lparr>enc_Difficulty := map_option (\<lambda>xs. xs[i := d]) (enc_Difficulty e),
              enc_Number := map_option (\<lambda>xs. xs[i := n]) (enc_Number e),
              enc_GasLimit := map_option (\<lambda>xs. xs[i := gl]) (enc_GasLimit e),
              enc_GasUsed := map_option (\<lambda>xs. xs[i := gu]) (enc_GasUsed e),
              enc_BaseFee := map_option (\<lambda>xs. xs[i := bf]) (enc_BaseFee e)\<rparr>))))))"

text \<open>
  \<^verbatim>\<open>json.Marshal\<close> of the struct: a nil slice is \<^verbatim>\<open>null\<close>, a nil pointer in a slice is
  \<^verbatim>\<open>null\<close>, \<^verbatim>\<open>hexutil.Bytes\<close> is always a string.
\<close>

definition json_slice :: "('a \<Rightarrow> json) \<Rightarrow> 'a list option \<Rightarrow> json" where
  "json_slice leaf xs = (case xs of None \<Rightarrow> JNull | Some ys \<Rightarrow> JArray (map leaf ys))"

definition json_big :: "int option \<Rightarrow> json" where
  "json_big x = (case x of None \<Rightarrow> JNull | Some n \<Rightarrow> JBig n)"

definition json_Marshal :: "enc \<Rightarrow> json" where
  "json_Marshal e = JObject
     [(''parentHash'', json_slice JHash (enc_ParentHash e)),
      (''sha3Uncles'', json_slice JHash (enc_UncleHash e)),
      (''miner'', json_slice JAddress (enc_Coinbase e)),
      (''stateRoot'', json_slice JHash (enc_Root e)),
      (''transactionsRoot'', json_slice JHash (enc_TxHash e)),
      (''extTransactionsRoot'', json_slice JHash (enc_EtxHash e)),
      (''manifestHash'', json_slice JHash (enc_ManifestHash e)),
      (''receiptsRoot'', json_slice JHash (enc_ReceiptHash e)),
      (''logsBloom'', json_slice JBloom (enc_Bloom e)),
      (''difficulty'', json_slice json_big (enc_Difficulty e)),
      (''number'', json_slice json_big (enc_Number e)),
      (''gasLimit'', json_slice JUint64 (enc_GasLimit e)),
      (''gasUsed'', json_slice JUint64 (enc_GasUsed e)),
      (''baseFeePerGas'', json_slice json_big (enc_BaseFee e)),
      (''location'', (case enc_Location e of None \<Rightarrow> JNull | Some b \<Rightarrow> JBytes b)),
      (''timestamp'', JUint64 (enc_Time e)),
      (''extraData'', JBytes (case enc_Extra e of None \<Rightarrow> [] | Some b \<Rightarrow> b)),
      (''nonce'', JNonce (enc_Nonce e)),
      (''hash'', JHash (enc_Hash e))]"

definition MarshalJSON :: "nat \<Rightarrow> (jsonHeader \<Rightarrow> hash) \<Rightarrow> jsonHeader \<Rightarrow> json result" where
  "MarshalJSON depth hashOf h =
     (let e0 = enc_zero
            \<lparr>enc_Difficulty := Some (replicate depth None),
             enc_Number := Some (replicate depth None),
             enc_GasLimit := Some (replicate depth 0),
             enc_GasUsed := Some (replicate depth 0),
             enc_BaseFee := Some (replicate depth None)\<rparr>;
          e1 = e0
            \<lparr>enc_ParentHash := copy (enc_ParentHash e0) (parentHash h),
             enc_UncleHash := copy (enc_UncleHash e0) (uncleHash h),
             enc_Coinbase := copy (enc_Coinbase e0) (coinbase h),
             enc_Root := copy (enc_Root e0) (root h),
             enc_TxHash := copy (enc_TxHash e0) (txHash h),
             enc_EtxHash := copy (enc_EtxHash e0) (etxHash h),
             enc_ManifestHash := copy (enc_ManifestHash e0) (manifestHash h),
             enc_ReceiptHash := copy (enc_ReceiptHash e0) (receiptHash h),
             enc_Bloom := copy (enc_Bloom e0) (bloom h)\<rparr>
      in rbind (forTiers (enc_tier h) [0..<depth] e1) (\<lambda>e2.
           Ok (json_Marshal
                 (e2\<lparr>enc_Location := location h, enc_Time := time h, enc_Extra := extra h,
                     enc_Nonce := nonce h, enc_Hash := hashOf h\<rparr>))))"

subsection \<open>UnmarshalJSON\<close>

record dec =
  dec_ParentHash :: "hash list option"
  dec_UncleHash :: "hash list option"
  dec_Coinbase :: "address list option"
  dec_Root :: "hash list option"
  dec_TxHash :: "hash list option"
  dec_ReceiptHash :: "hash list option"
  dec_EtxHash :: "hash list option"
  dec_ManifestHash :: "hash list option"
  dec_Bloom :: "bloom list option"
  dec_Difficulty :: "int option list option"
  dec_Number :: "int option list option"
  dec_GasLimit :: "uint64 list option"
  dec_GasUsed :: "uint64 list option"
  dec_BaseFee :: "int option list option"
  dec_Location :: "byte list option"
  dec_Time :: uint64
  dec_Extra :: "byte list option"
  dec_Nonce :: blockNonce

text \<open>
  \<^verbatim>\<open>json.Unmarshal\<close> into the struct. A key that is absent leaves the field at its zero value
  (nil, 0). \<^verbatim>\<open>null\<close> sets a slice or a pointer to nil; for a type with its own
  \<^verbatim>\<open>UnmarshalJSON\<close> (\<^verbatim>\<open>hexutil.Uint64\<close>, \<^verbatim>\<open>hexutil.Bytes\<close>, the hashes) \<^verbatim>\<open>null\<close> is handed to
  that method, which rejects what is not a string. Of a key that occurs twice the last
  occurrence counts. Keys that the struct does not have (\<^verbatim>\<open>hash\<close>) are skipped.
\<close>

definition field :: "(string \<times> json) list \<Rightarrow> string \<Rightarrow> json option" where
  "field obj name = map_of (rev obj) name"

definition type_error :: "'a result" where
  "type_error = Error ''json: cannot unmarshal''"

definition dec_slice :: "(json \<Rightarrow> 'a option) \<Rightarrow> json option \<Rightarrow> 'a list option result" where
  "dec_slice leaf v =
     (case v of
        None \<Rightarrow> Ok None
      | Some JNull \<Rightarrow> Ok None
      | Some (JArray xs) \<Rightarrow>
          if list_all (\<lambda>x. leaf x \<noteq> None) xs then Ok (Some (map (\<lambda>x. the (leaf x)) xs))
          else type_error
      | Some other \<Rightarrow> type_error)"

definition as_hash :: "json \<Rightarrow> hash option" where
  "as_hash v = (case v of JHash x \<Rightarrow> Some x | other \<Rightarrow> None)"

definition as_address :: "json \<Rightarrow> address option" where
  "as_address v = (case v of JAddress x \<Rightarrow> Some x | other \<Rightarrow> None)"

definition as_bloom :: "json \<Rightarrow> bloom option" where
  "as_bloom v = (case v of JBloom x \<Rightarrow> Some x | other \<Rightarrow> None)"

definition as_uint64 :: "json \<Rightarrow> uint64 option" where
  "as_uint64 v = (case v of JUint64 x \<Rightarrow> Some x | other \<Rightarrow> None)"

definition as_big :: "json \<Rightarrow> int option option" where
  "as_big v = (case v of JNull \<Rightarrow> Some None | JBig n \<Rightarrow> Some (Some n) | other \<Rightarrow> None)"

definition dec_bytes :: "json option \<Rightarrow> byte list option result" where
  "dec_bytes v =
     (case v of None \<Rightarrow> Ok None | Some (JBytes b) \<Rightarrow> Ok (Some b) | Some other \<Rightarrow> type_error)"

definition dec_location :: "json option \<Rightarrow> byte list option result" where
  "dec_location v =
     (case v of
        None \<Rightarrow> Ok None
      | Some JNull \<Rightarrow> Ok None
      | Some (JBytes b) \<Rightarrow> Ok (Some b)
      | Some other \<Rightarrow> type_error)"

definition dec_uint64 :: "json option \<Rightarrow> uint64 result" where
  "dec_uint64 v =
     (case v of None \<Rightarrow> Ok 0 | Some (JUint64 x) \<Rightarrow> Ok x | Some other \<Rightarrow> type_error)"

definition dec_nonce :: "json option \<Rightarrow> blockNonce result" where
  "dec_nonce v =
     (case v of None \<Rightarrow> Ok 0 | Some (JNonce x) \<Rightarrow> Ok x | Some other \<Rightarrow> type_error)"

definition json_Unmarshal :: "json \<Rightarrow> dec result" where
  "json_Unmarshal input =
     (case (case input of JObject obj \<Rightarrow> Some obj | JNull \<Rightarrow> Some [] | other \<Rightarrow> None) of
        None \<Rightarrow> type_error
      | Some obj \<Rightarrow>
          rbind (dec_slice as_hash (field obj ''parentHash'')) (\<lambda>v1.
          rbind (dec_slice as_hash (field obj ''sha3Uncles'')) (\<lambda>v2.
          rbind (dec_slice as_address (field obj ''miner'')) (\<lambda>v3.
          rbind (dec_slice as_hash (field obj ''stateRoot'')) (\<lambda>v4.
          rbind (dec_slice as_hash (field obj ''transactionsRoot'')) (\<lambda>v5.
          rbind (dec_slice as_hash (field obj ''receiptsRoot'')) (\<lambda>v6.
          rbind (dec_slice as_hash (field obj ''extTransactionsRoot'')) (\<lambda>v7.
          rbind (dec_slice as_hash (field obj ''manifestHash'')) (\<lambda>v8.
          rbind (dec_slice as_bloom (field obj ''logsBloom'')) (\<lambda>v9.
          rbind (dec_slice as_big (field obj ''difficulty'')) (\<lambda>v10.
          rbind (dec_slice as_big (field obj ''number'')) (\<lambda>v11.
          rbind (dec_slice as_uint64 (field obj ''gasLimit'')) (\<lambda>v12.
          rbind (dec_slice as_uint64 (field obj ''gasUsed'')) (\<lambda>v13.
          rbind (dec_slice as_big (field obj ''baseFeePerGas'')) (\<lambda>v14.
          rbind (dec_location (field obj ''location'')) (\<lambda>v15.
          rbind (dec_uint64 (field obj ''timestamp'')) (\<lambda>v16.
          rbind (dec_bytes (field obj ''extraData'')) (\<lambda>v17.
          rbind (dec_nonce (field obj ''nonce'')) (\<lambda>v18.
            Ok \<lparr>dec_ParentHash = v1, dec_UncleHash = v2, dec_Coinbase = v3, dec_Root = v4,
                dec_TxHash = v5, dec_ReceiptHash = v6, dec_EtxHash = v7,
                dec_ManifestHash = v8, dec_Bloom = v9, dec_Difficulty = v10,
                dec_Number = v11, dec_GasLimit = v12, dec_GasUsed = v13, dec_BaseFee = v14,
                dec_Location = v15, dec_Time = v16, dec_Extra = v17,
                dec_Nonce = v18\<rparr>)))))))))))))))))))"

definition missing :: "string \<Rightarrow> 'a result" where
  "missing name =
     Error (''missing required field '' @ [CHR 0x27] @ name @ [CHR 0x27] @ '' for Header'')"

text \<open>
  \<^verbatim>\<open>errors.New("missing required field 'difficulty' for Header")\<close> when the pointer is nil.
\<close>

definition required :: "string \<Rightarrow> 'a option \<Rightarrow> 'a result" where
  "required name p = (case p of None \<Rightarrow> missing name | Some x \<Rightarrow> Ok x)"

text \<open>The body of the loop of \<^verbatim>\<open>UnmarshalJSON\<close>, at tier \<open>i\<close>, in the order of the source.\<close>

definition dec_tier :: "dec \<Rightarrow> nat \<Rightarrow> jsonHeader \<Rightarrow> jsonHeader result" where
  "dec_tier d i h =
     rbind (nil_index (dec_ParentHash d) i) (\<lambda>v1.
     rbind (nil_index (dec_UncleHash d) i) (\<lambda>v2.
     rbind (nil_index (dec_Coinbase d) i) (\<lambda>v3.
     rbind (nil_index (dec_Root d) i) (\<lambda>v4.
     rbind (nil_index (dec_TxHash d) i) (\<lambda>v5.
     rbind (nil_index (dec_ReceiptHash d) i) (\<lambda>v6.
     rbind (nil_index (dec_EtxHash d) i) (\<lambda>v7.
     rbind (nil_index (dec_ManifestHash d) i) (\<lambda>v8.
     rbind (nil_index (dec_Bloom d) i) (\<lambda>v9.
     rbind (nil_index (dec_Difficulty d) i) (\<lambda>p10.
     rbind (required ''difficulty'' p10) (\<lambda>v10.
     rbind (nil_index (dec_Number d) i) (\<lambda>p11.
     rbind (required ''number'' p11) (\<lambda>v11.
     rbind (nil_index (dec_GasLimit d) i) (\<lambda>v12.
     rbind (nil_index (dec_GasUsed d) i) (\<lambda>v13.
     rbind (nil_index (dec_BaseFee d) i) (\<lambda>p14.
     rbind (required ''baseFeePerGas'' p14) (\<lambda>v14.
       Ok (h\<lparr>parentHash := (parentHash h)[i := v1],
              uncleHash := (uncleHash h)[i := v2],
              coinbase := (coinbase h)[i := v3],
              root := (root h)[i := v4],
              txHash := (txHash h)[i := v5],
              receiptHash := (receiptHash h)[i := v6],
              etxHash := (etxHash h)[i := v7],
              manifestHash := (manifestHash h)[i := v8],
              bloom := (bloom h)[i := v9],
              difficulty := (difficulty h)[i := Some v10],
              number := (number h)[i := Some v11],
              gasLimit := (gasLimit h)[i := v12],
              gasUsed := (gasUsed h)[i := v13],
              baseFee := (baseFee h)[i := Some v14]\<rparr>))))))))))))))))))"

text \<open>
  ``Initialize the header'': every per-tier slice is \<^verbatim>\<open>make(..., common.HierarchyDepth)\<close>.
  The four shared fields are set after the loop, so what they hold here does not matter.
\<close>

definition header_made :: "nat \<Rightarrow> jsonHeader" where
  "header_made depth =
     \<lparr>parentHash = replicate depth 0, uncleHash = replicate depth 0,
      coinbase = replicate depth 0, root = replicate depth 0, txHash = replicate depth 0,
      etxHash = replicate depth 0, manifestHash = replicate depth 0,
      receiptHash = replicate depth 0, bloom = replicate depth 0,
      difficulty = replicate depth None, number = replicate depth None,
      gasLimit = replicate depth 0, gasUsed = replicate depth 0,
      baseFee = replicate depth None, location = None, time = 0, extra = None, nonce = 0\<rparr>"

definition UnmarshalJSON :: "nat \<Rightarrow> json \<Rightarrow> jsonHeader result" where
  "UnmarshalJSON depth input =
     rbind (json_Unmarshal input) (\<lambda>d.
       if dec_ParentHash d = None then missing ''parentHash''
       else if dec_UncleHash d = None then missing ''sha3Uncles''
       else if dec_Coinbase d = None then missing ''miner''
       else if dec_Root d = None then missing ''stateRoot''
       else if dec_TxHash d = None then missing ''transactionsRoot''
       else if dec_EtxHash d = None then missing ''extTransactionsRoot''
       else if dec_ManifestHash d = None then missing ''manifestHash''
       else if dec_ReceiptHash d = None then missing ''receiptsRoot''
       else if dec_Bloom d = None then missing ''logsBloom''
       else if dec_Difficulty d = None then missing ''difficulty''
       else if dec_Number d = None then missing ''number''
       else if dec_GasLimit d = None then missing ''gasLimit''
       else if dec_GasUsed d = None then missing ''gasUsed''
       else if dec_BaseFee d = None then missing ''baseFee''
       else if dec_Time d = 0 then missing ''timestamp''
       else if dec_Extra d = None then missing ''extraData''
       else
         rbind (forTiers (dec_tier d) [0..<depth] (header_made depth)) (\<lambda>h.
           Ok (h\<lparr>location := dec_Location d, time := dec_Time d, extra := dec_Extra d,
                  nonce := dec_Nonce d\<rparr>)))"

section \<open>Notions used by the properties\<close>



text \<open>
  What the documentation of \<^verbatim>\<open>sort.Slice\<close> promises for the comparator of \<^verbatim>\<open>Append\<close>:
  the slice is a permutation of what it was and is sorted by the comparator. ``The sort is
  not guaranteed to be stable: equal elements may be reversed from their original order.''
\<close>

definition sort_contract ::
  "((header \<Rightarrow> header \<Rightarrow> bool) \<Rightarrow> header list \<Rightarrow> header list) \<Rightarrow> bool" where
  "sort_contract srt \<longleftrightarrow>
     (\<forall>xs. mset (srt headsLess xs) = mset xs \<and>
           sorted_wrt (\<lambda>a b. \<not> headsLess b a) (srt headsLess xs))"

text \<open>
  Two sorts that meet it. Both insert one element after the other into a sorted list, in
  front of the first element that is greater. \<open>stableSort\<close> inserts the elements from the
  first to the last and keeps equal elements in their order; \<open>reversingSort\<close> inserts them
  from the last to the first and reverses equal elements.
\<close>

fun insertSorted :: "('a \<Rightarrow> 'a \<Rightarrow> bool) \<Rightarrow> 'a \<Rightarrow> 'a list \<Rightarrow> 'a list" where
  "insertSorted lt x [] = [x]"
| "insertSorted lt x (y # ys) =
     (if lt x y then x # y # ys else y # insertSorted lt x ys)"

definition stableSort :: "('a \<Rightarrow> 'a \<Rightarrow> bool) \<Rightarrow> 'a list \<Rightarrow> 'a list" where
  "stableSort lt xs = foldr (insertSorted lt) (rev xs) []"

definition reversingSort :: "('a \<Rightarrow> 'a \<Rightarrow> bool) \<Rightarrow> 'a list \<Rightarrow> 'a list" where
  "reversingSort lt xs = foldr (insertSorted lt) xs []"

text \<open>
  For comparison, what \<^verbatim>\<open>sort.Slice\<close> of the Go library up to release 1.18 does with a slice
  of at most 12 elements (the last phase of its \<^verbatim>\<open>quickSort_func\<close>): one ShellSort pass with
  gap 6, then an insertion sort, both by swapping in place.
\<close>

definition swap :: "nat \<Rightarrow> nat \<Rightarrow> 'a list \<Rightarrow> 'a list" where
  "swap i j xs = xs[i := xs ! j, j := xs ! i]"

fun insertionStep :: "('a \<Rightarrow> 'a \<Rightarrow> bool) \<Rightarrow> nat \<Rightarrow> 'a list \<Rightarrow> 'a list" where
  "insertionStep lt 0 xs = xs"
| "insertionStep lt (Suc j) xs =
     (if lt (xs ! Suc j) (xs ! j) then insertionStep lt j (swap (Suc j) j xs) else xs)"

definition shellPass :: "('a \<Rightarrow> 'a \<Rightarrow> bool) \<Rightarrow> 'a list \<Rightarrow> 'a list" where
  "shellPass lt xs =
     foldl (\<lambda>ys i. if lt (ys ! i) (ys ! (i - 6)) then swap i (i - 6) ys else ys) xs
       [6..<length xs]"

definition smallSliceSort :: "('a \<Rightarrow> 'a \<Rightarrow> bool) \<Rightarrow> 'a list \<Rightarrow> 'a list" where
  "smallSliceSort lt xs =
     foldl (\<lambda>ys i. insertionStep lt i ys) (shellPass lt xs) [1..<length xs]"

subsection \<open>Example data\<close>

text \<open>
  A genesis header \<open>G\<close>, two children \<open>A\<close> and \<open>B\<close> of it (a fork at number 1), and a
  child \<open>C\<close> of \<open>A\<close>.
\<close>

definition G :: header where
  "G = \<lparr>hdr_hash = 100, ParentHash = 0, Number = 0, Location = [1, 1]\<rparr>"

definition A :: header where
  "A = \<lparr>hdr_hash = 101, ParentHash = 100, Number = 1, Location = [1, 1]\<rparr>"

definition B :: header where
  "B = \<lparr>hdr_hash = 102, ParentHash = 100, Number = 1, Location = [1, 2]\<rparr>"

definition C :: header where
  "C = \<lparr>hdr_hash = 103, ParentHash = 101, Number = 2, Location = [1, 1]\<rparr>"

definition exampleDb :: db where
  "exampleDb = WriteHeader (WriteHeader (WriteHeader (WriteHeader emptyDb G) A) B) C"

definition D :: header where
  "D = \<lparr>hdr_hash = 104, ParentHash = 103, Number = 3, Location = [1, 1]\<rparr>"

definition E :: header where
  "E = \<lparr>hdr_hash = 105, ParentHash = 104, Number = 4, Location = [1, 1]\<rparr>"

text \<open>
  Environments with a queue of three heads: one in which the batch and the executor
  succeed, one in which the executor rejects every block, one whose sort reverses ties.
\<close>

definition okEnv :: env where
  "okEnv = \<lparr>maxHeadsQueueLimit = 3, batchWrite = (\<lambda>h. None), bcAppend = (\<lambda>b. None),
            sortSlice = stableSort\<rparr>"

definition rejectEnv :: env where
  "rejectEnv = okEnv\<lparr>bcAppend := (\<lambda>b. Some ''rejected'')\<rparr>"

definition reversingEnv :: env where
  "reversingEnv = okEnv\<lparr>sortSlice := reversingSort\<rparr>"

definition blockOf :: "header \<Rightarrow> block" where
  "blockOf h = \<lparr>blockHeader = h\<rparr>"

text \<open>
  The engine of scenario S2 just before the queue overflows: \<open>A\<close>, \<open>C\<close> and \<open>D\<close> appended on
  top of the genesis header. And an engine that appended \<open>A\<close> and then read it back by hash,
  which put it into the caches.
\<close>

definition threeHeads :: headerChain where
  "threeHeads =
     the (AppendAll okEnv (newHeaderChain (WriteHeader emptyDb G))
            [blockOf A, blockOf C, blockOf D])"

definition warmA :: headerChain where
  "warmA =
     snd (GetHeaderByHash
            (the (AppendAll okEnv (newHeaderChain (WriteHeader emptyDb G)) [blockOf A])) 101)"

text \<open>
  Tips that differ in hash and number only, and an environment with a queue of seven heads
  that sorts like the Go library up to release 1.18.
\<close>

definition tip :: "nat \<Rightarrow> int \<Rightarrow> header" where
  "tip k n = \<lparr>hdr_hash = of_nat k, ParentHash = 100, Number = n, Location = [1, 1]\<rparr>"

definition sevenEnv :: env where
  "sevenEnv = \<lparr>maxHeadsQueueLimit = 7, batchWrite = (\<lambda>h. None), bcAppend = (\<lambda>b. None),
               sortSlice = smallSliceSort\<rparr>"

text \<open>
  Invariant H1 of the spec: every per-tier slice of the header has length \<open>depth\<close>.
\<close>

definition tiers_ok :: "nat \<Rightarrow> jsonHeader \<Rightarrow> bool" where
  "tiers_ok depth h \<longleftrightarrow>
     length (parentHash h) = depth \<and> length (uncleHash h) = depth \<and>
     length (coinbase h) = depth \<and> length (root h) = depth \<and> length (txHash h) = depth \<and>
     length (etxHash h) = depth \<and> length (manifestHash h) = depth \<and>
     length (receiptHash h) = depth \<and> length (bloom h) = depth \<and>
     length (difficulty h) = depth \<and> length (number h) = depth \<and>
     length (gasLimit h) = depth \<and> length (gasUsed h) = depth \<and> length (baseFee h) = depth"

text \<open>
  A header of depth 1 with a value in every field, the JSON object that stands for it, and
  the removal of a key from an object.
\<close>

definition exampleHeader :: jsonHeader where
  "exampleHeader =
     \<lparr>parentHash = [100], uncleHash = [7], coinbase = [8], root = [9], txHash = [10],
      etxHash = [11], manifestHash = [12], receiptHash = [13], bloom = [14],
      difficulty = [Some 1000], number = [Some 1], gasLimit = [5000], gasUsed = [21],
      baseFee = [Some 2], location = Some [1, 1], time = 1700000000, extra = Some [3],
      nonce = 42\<rparr>"

definition exampleObject :: "(string \<times> json) list" where
  "exampleObject =
     [(''parentHash'', JArray [JHash 100]), (''sha3Uncles'', JArray [JHash 7]),
      (''miner'', JArray [JAddress 8]), (''stateRoot'', JArray [JHash 9]),
      (''transactionsRoot'', JArray [JHash 10]), (''extTransactionsRoot'', JArray [JHash 11]),
      (''manifestHash'', JArray [JHash 12]), (''receiptsRoot'', JArray [JHash 13]),
      (''logsBloom'', JArray [JBloom 14]), (''difficulty'', JArray [JBig 1000]),
      (''number'', JArray [JBig 1]), (''gasLimit'', JArray [JUint64 5000]),
      (''gasUsed'', JArray [JUint64 21]), (''baseFeePerGas'', JArray [JBig 2]),
      (''location'', JBytes [1, 1]), (''timestamp'', JUint64 1700000000),
      (''extraData'', JBytes [3]), (''nonce'', JNonce 42)]"

definition without :: "string \<Rightarrow> (string \<times> json) list \<Rightarrow> (string \<times> json) list" where
  "without name obj = filter (\<lambda>p. fst p \<noteq> name) obj"

section \<open>Properties\<close>

subsection \<open>The caches\<close>


lemma lru_Get_none: "lru_Get c k = (None, c') \<Longrightarrow> c' = c"
  by (auto simp: lru_Get_def split: option.splits)






subsection \<open>Walking towards genesis\<close>

lemma GetHeader_keeps:
  "GetHeader hc h n = (r, hc') \<Longrightarrow> headerDb hc' = headerDb hc \<and> heads hc' = heads hc"
  by (auto simp: GetHeader_def split: prod.splits option.splits)






subsection \<open>Ancestor by location\<close>

lemma GetAncestorByLocation_never_Ok:
  "GetAncestorByLocation hc h loc =
     (case GetHeaderByHash hc h of
        (Some header, hc') \<Rightarrow> Some (Error ''error finding header by hash'', hc')
      | (None, hc') \<Rightarrow> Some (Panic ''nil pointer dereference'', hc'))"
  by (simp add: GetAncestorByLocation_def ancestorLoop.simps split: prod.splits option.splits)

text \<open>
  C5. The code at the input that its own comment describes (``location == hash location
  returns the same block''): the header \<open>A\<close> is persisted under hash 101 and its location
  is the one asked for, and \<^verbatim>\<open>GetAncestorByLocation\<close> returns the error; for a hash that
  cannot be fetched (999) it does not return an error but dereferences nil.
\<close>

theorem GetAncestorByLocation_inverted_guard:
  "fst (GetHeaderByHash (newHeaderChain exampleDb) 101) = Some A \<and> Location A = [1, 1] \<and>
   map_option fst (GetAncestorByLocation (newHeaderChain exampleDb) 101 [1, 1])
     = Some (Error ''error finding header by hash'') \<and>
   fst (GetHeaderByHash (newHeaderChain exampleDb) 999) = None \<and>
   map_option fst (GetAncestorByLocation (newHeaderChain exampleDb) 999 [1, 1])
     = Some (Panic ''nil pointer dereference'')"
proof -
  have a: "fst (GetHeaderByHash (newHeaderChain exampleDb) 101) = Some A"
    by code_simp
  have b: "fst (GetHeaderByHash (newHeaderChain exampleDb) 999) = None"
    by code_simp
  have c: "Location A = [1, 1]"
    by (simp add: A_def)
  from a b c show ?thesis
    by (auto simp: GetAncestorByLocation_never_Ok split: prod.splits option.splits)
qed

subsection \<open>Total difficulty\<close>

text \<open>
  C8, as the code has it. When neither the cache nor the store holds a total difficulty for
  the hash and number, \<^verbatim>\<open>GetTd\<close> returns a slice of length 3 (the literal 3 of the code)
  whose three entries are nil pointers, and leaves the engine as it was; \<^verbatim>\<open>GetTdByHash\<close>
  returns the same slice when the number of the hash is unknown.
\<close>

theorem GetTd_miss_nil_vector:
  "(map_of (tdCache hc) h = None \<and> ReadTd (headerDb hc) h n = None
      \<longrightarrow> GetTd hc h n = (replicate 3 None, hc))
   \<and> (fst (GetBlockNumber hc h) = None
      \<longrightarrow> fst (GetTdByHash hc h) = replicate 3 None)"
  by (auto simp: GetTd_def GetTdByHash_def lru_Get_def split: prod.splits option.splits)

theorem GetTd_miss_nil_vector_witness:
  "map_of (tdCache (newHeaderChain emptyDb)) 7 = None
   \<and> ReadTd (headerDb (newHeaderChain emptyDb)) 7 4 = None
   \<and> fst (GetBlockNumber (newHeaderChain emptyDb) 7) = None
   \<and> GetTd (newHeaderChain emptyDb) 7 4 = ([None, None, None], newHeaderChain emptyDb)
   \<and> fst (GetTdByHash (newHeaderChain emptyDb) 7) = [None, None, None]"
  using GetTd_miss_nil_vector [of "newHeaderChain emptyDb" 7 4]
  by (simp add: newHeaderChain_def emptyDb_def ReadTd_def GetBlockNumber_def lru_Get_def
      ReadHeaderNumber_def numeral_3_eq_3)

text \<open>
  The claim as written fails: on a miss the entries of the vector are nil, not the big
  integer zero.
\<close>

theorem GetTd_zero_vector_counterexample:
  "map_of (tdCache (newHeaderChain emptyDb)) 1 = None \<and> ReadTd emptyDb 1 0 = None
   \<and> fst (GetTd (newHeaderChain emptyDb) 1 0) \<noteq> replicate 3 (Some 0)"
  by (simp add: GetTd_def newHeaderChain_def emptyDb_def ReadTd_def lru_Get_def)

subsection \<open>The location range\<close>

text \<open>
  C10, as the code has it. \<^verbatim>\<open>CheckLocationRange\<close> has no length check. It reads byte 0
  first: an empty slice panics. It reads byte 1 only after byte 0 passed the region check:
  a slice of one byte returns the region error when that byte is outside the region range
  and panics otherwise. Only a slice of at least two bytes reaches the zone check and \<open>Ok\<close>.
\<close>

theorem CheckLocationRange_by_length:
  "CheckLocationRange rm zm loc =
     (case loc of
        [] \<Rightarrow> Panic ''index out of range''
      | [r] \<Rightarrow>
          if uint r < 1 \<or> rm < uint r
          then Error ''the provided location is outside the allowable region range''
          else Panic ''index out of range''
      | r # z # rest \<Rightarrow>
          if uint r < 1 \<or> rm < uint r
          then Error ''the provided location is outside the allowable region range''
          else if uint z < 1 \<or> zm < uint z
          then Error ''the provided location is outside the allowable zone range''
          else Ok ())"
  by (auto simp: CheckLocationRange_def slice_index_def split: list.splits)

theorem CheckLocationRange_by_length_witness:
  "CheckLocationRange 3 3 [] = Panic ''index out of range'' \<and>
   CheckLocationRange 3 3 [2] = Panic ''index out of range'' \<and>
   CheckLocationRange 3 3 [4] = Error ''the provided location is outside the allowable region range'' \<and>
   CheckLocationRange 3 3 [2, 0] = Error ''the provided location is outside the allowable zone range'' \<and>
   CheckLocationRange 3 3 [2, 3, 9] = Ok ()"
  using CheckLocationRange_by_length [of 3 3 "[]"] CheckLocationRange_by_length [of 3 3 "[2]"]
    CheckLocationRange_by_length [of 3 3 "[4]"] CheckLocationRange_by_length [of 3 3 "[2, 0]"]
    CheckLocationRange_by_length [of 3 3 "[2, 3, 9]"]
  by simp

text \<open>
  The claim as written fails: a slice of length 1 whose byte is outside the region range
  returns the region error.
\<close>

theorem CheckLocationRange_short_counterexample:
  "length [0 :: byte] < 2 \<and>
   CheckLocationRange 3 3 [0]
     = Error ''the provided location is outside the allowable region range''"
  by (simp add: CheckLocationRange_def slice_index_def)

subsection \<open>Sorting and trimming\<close>

lemma insertSorted_mset: "mset (insertSorted lt x xs) = add_mset x (mset xs)"
  by (induction xs) auto

lemma foldr_insertSorted_mset: "mset (foldr (insertSorted lt) xs []) = mset xs"
  by (induction xs) (auto simp: insertSorted_mset)

lemma insertSorted_set: "set (insertSorted lt x xs) = insert x (set xs)"
  by (induction xs) auto

lemma insertSorted_sorted:
  "sorted_wrt (\<lambda>a b. \<not> headsLess b a) xs \<Longrightarrow> sorted_wrt (\<lambda>a b. \<not> headsLess b a) (insertSorted headsLess x xs)"
  by (induction xs) (auto simp: insertSorted_set headsLess_def)

lemma foldr_insertSorted_sorted:
  "sorted_wrt (\<lambda>a b. \<not> headsLess b a) (foldr (insertSorted headsLess) xs [])"
  by (induction xs) (auto simp: insertSorted_sorted)

lemma stableSort_contract: "sort_contract stableSort"
  by (simp add: sort_contract_def stableSort_def foldr_insertSorted_mset foldr_insertSorted_sorted)

lemma reversingSort_contract: "sort_contract reversingSort"
  by (simp add: sort_contract_def reversingSort_def foldr_insertSorted_mset foldr_insertSorted_sorted)

lemma equaliseHeight_keeps:
  "equaliseHeight hc i new = Some r \<Longrightarrow>
     headerDb (snd r) = headerDb hc \<and> heads (snd r) = heads hc"
proof (induction rule: equaliseHeight.raw_induct [rotated 1, consumes 1])
  case (1 f hc i new r)
  obtain v hc1 where g: "GetHeader hc (ParentHash new) (Number64 new - 1) = (v, hc1)"
    by (cases "GetHeader hc (ParentHash new) (Number64 new - 1)")
  from GetHeader_keeps [OF g] 1 g show ?case
    by (cases v) (auto split: if_splits)
qed

lemma commonAncestor_keeps:
  "commonAncestor hc old new = Some r \<Longrightarrow>
     headerDb (snd r) = headerDb hc \<and> heads (snd r) = heads hc"
proof (induction rule: commonAncestor.raw_induct [rotated 1, consumes 1])
  case (1 f hc old new r)
  obtain v hc1 where g: "GetHeader hc (Parent old) (Number64 old - 1) = (v, hc1)"
    by (cases "GetHeader hc (Parent old) (Number64 old - 1)")
  obtain w hc2 where g2: "GetHeader hc1 (Parent new) (Number64 new - 1) = (w, hc2)"
    by (cases "GetHeader hc1 (Parent new) (Number64 new - 1)")
  from GetHeader_keeps [OF g] GetHeader_keeps [OF g2] 1 g g2 show ?case
    by (cases v; cases w) (auto split: if_splits)
qed

lemma trim_heads:
  "trim hc c p = Some r \<Longrightarrow> heads (snd r) = heads hc"
proof (induction rule: trim.raw_induct [rotated 1, consumes 1])
  case (1 f hc c p r)
  let ?hc = "hc\<lparr>headerDb := DeleteHeader (headerDb hc) (hdr_hash p) (Number64 p)\<rparr>"
  obtain v hc1 where g: "GetHeader ?hc (Parent p) (Number64 p - 1) = (v, hc1)"
    by (cases "GetHeader ?hc (Parent p) (Number64 p - 1)")
  from GetHeader_keeps [OF g] 1 g show ?case
    by (cases v) (auto split: if_splits)
qed

lemma commonAncestor_Ok:
  "commonAncestor hc old new = Some r \<Longrightarrow>
     (\<forall>c hc'. r = (Ok c, hc') \<longrightarrow> hdr_hash old = hdr_hash new \<and> c = old \<and> hc' = hc)"
  by (induction rule: commonAncestor.raw_induct [rotated 1, consumes 1])
     (auto split: if_splits prod.splits option.splits)

lemma trimBranch_heads:
  "trimBranch hc old new = Some r \<Longrightarrow> heads (snd r) = heads hc"
  by (auto simp: trimBranch_def split: option.splits prod.splits result.splits
      dest!: equaliseHeight_keeps commonAncestor_keeps trim_heads)

text \<open>A call of \<^verbatim>\<open>trimBranch\<close> that returns nil has deleted nothing.\<close>

lemma trimBranch_Ok_no_delete:
  "trimBranch hc old new = Some (Ok u, hc') \<Longrightarrow> headerDb hc' = headerDb hc"
  apply (auto simp: trimBranch_def split: option.splits prod.splits result.splits
      dest!: commonAncestor_Ok equaliseHeight_keeps)
  apply (subst (asm) trim.simps, simp)+
  done

subsection \<open>Branch trimming on a fork\<close>

lemma map_of_filter_neq: "x \<noteq> k \<Longrightarrow> map_of (filter (\<lambda>p. fst p \<noteq> k) c) x = map_of c x"
  by (induction c) auto

lemma lru_Get_dom: "lru_Get c k = (r, c') \<Longrightarrow> dom (map_of c') = dom (map_of c)"
proof (cases "map_of c k")
  case None
  assume "lru_Get c k = (r, c')"
  with None show ?thesis by (simp add: lru_Get_def)
next
  case (Some v)
  assume "lru_Get c k = (r, c')"
  with Some have c': "c' = (k, v) # filter (\<lambda>p. fst p \<noteq> k) c" by (simp add: lru_Get_def)
  have "\<And>x. (map_of c' x = None) = (map_of c x = None)"
    using Some by (simp add: c' map_of_filter_neq)
  then show ?thesis by (auto simp: dom_def)
qed

lemma GetHeader_cached:
  "h \<in> dom (map_of (headerCache hc)) \<Longrightarrow>
     \<exists>v hc'. GetHeader hc h n = (Some v, hc') \<and>
        dom (map_of (headerCache hc')) = dom (map_of (headerCache hc))"
proof -
  assume "h \<in> dom (map_of (headerCache hc))"
  then obtain v where v: "map_of (headerCache hc) h = Some v" by auto
  obtain c where g: "lru_Get (headerCache hc) h = (Some v, c)"
    using v by (simp add: lru_Get_def)
  from g lru_Get_dom [OF g] show ?thesis by (simp add: GetHeader_def)
qed

lemma commonAncestor_cached_diverges:
  "commonAncestor hc old new = Some r \<Longrightarrow>
     \<not> (hdr_hash old \<noteq> hdr_hash new \<and> Parent old \<in> dom (map_of (headerCache hc))
        \<and> Parent new \<in> dom (map_of (headerCache hc)))"
proof (induction rule: commonAncestor.raw_induct [rotated 1, consumes 1])
  case (1 f hc old new r)
  show ?case
  proof
    assume a: "hdr_hash old \<noteq> hdr_hash new \<and> Parent old \<in> dom (map_of (headerCache hc))
        \<and> Parent new \<in> dom (map_of (headerCache hc))"
    from a GetHeader_cached [of "Parent old" hc "Number64 old - 1"] obtain v hc1 where
      g1: "GetHeader hc (Parent old) (Number64 old - 1) = (Some v, hc1)"
      and d1: "dom (map_of (headerCache hc1)) = dom (map_of (headerCache hc))" by blast
    from a d1 GetHeader_cached [of "Parent new" hc1 "Number64 new - 1"] obtain w hc2 where
      g2: "GetHeader hc1 (Parent new) (Number64 new - 1) = (Some w, hc2)"
      and d2: "dom (map_of (headerCache hc2)) = dom (map_of (headerCache hc1))" by auto
    from 1(2) a g1 g2 have "f hc2 old new = Some r" by simp
    from 1(1) [OF this] a d1 d2 show False by simp
  qed
qed

lemma GetHeader_front:
  "GetHeader hc k n = (Some v, hc1) \<Longrightarrow> \<exists>rest. headerCache hc1 = (k, v) # rest"
  by (auto simp: GetHeader_def lru_Get_def lru_Add_def headerCacheLimit_def
      split: option.splits)

lemma GetHeader_second:
  assumes "headerCache hc1 = (k1, v) # rest" and "GetHeader hc1 k2 n = (Some w, hc2)"
  shows "k1 \<in> dom (map_of (headerCache hc2)) \<and> k2 \<in> dom (map_of (headerCache hc2))"
proof (cases "map_of (headerCache hc1) k2")
  case None
  with assms(1) have ne: "k1 \<noteq> k2" by auto
  from None assms have "headerCache hc2 = lru_Add headerCacheLimit (headerCache hc1) k2 w"
    by (auto simp: GetHeader_def lru_Get_def split: option.splits)
  with assms(1) ne have "\<exists>r. headerCache hc2 = (k2, w) # (k1, v) # r"
    by (simp add: lru_Add_def headerCacheLimit_def take_Cons')
  then show ?thesis by auto
next
  case (Some x)
  then have "k2 \<in> dom (map_of (headerCache hc1))" by auto
  from GetHeader_cached [OF this, of n] assms(2)
  have "dom (map_of (headerCache hc2)) = dom (map_of (headerCache hc1))" by auto
  with Some assms(1) show ?thesis by auto
qed

text \<open>
  C1. The code at a fork: \<open>old\<close> and \<open>new\<close> are two different headers of the same height and
  the parent of each can be loaded. Then \<^verbatim>\<open>trimBranch(old, new)\<close> never returns: the second
  loop reloads the same two parents in every round and compares the same two hashes. Nothing
  is deleted. In the witness \<open>G\<close> is the parent of both \<open>A\<close> and \<open>B\<close>, all persisted.
\<close>

theorem trimBranch_fork_never_returns:
  assumes "Number64 new = Number64 old" and "hdr_hash old \<noteq> hdr_hash new"
    and "fst (GetHeader hc (Parent old) (Number64 old - 1)) \<noteq> None"
    and "fst (GetHeader (snd (GetHeader hc (Parent old) (Number64 old - 1)))
                (Parent new) (Number64 new - 1)) \<noteq> None"
  shows "trimBranch hc old new = None"
proof -
  obtain v hc1 where g1: "GetHeader hc (Parent old) (Number64 old - 1) = (Some v, hc1)"
    using assms(3) by (cases "GetHeader hc (Parent old) (Number64 old - 1)") auto
  obtain w hc2 where g2: "GetHeader hc1 (Parent new) (Number64 new - 1) = (Some w, hc2)"
    using assms(4) g1 by (cases "GetHeader hc1 (Parent new) (Number64 new - 1)") auto
  from GetHeader_front [OF g1] obtain rest where "headerCache hc1 = (Parent old, v) # rest"
    by blast
  from GetHeader_second [OF this g2]
  have d: "Parent old \<in> dom (map_of (headerCache hc2))"
    "Parent new \<in> dom (map_of (headerCache hc2))" by auto
  have "commonAncestor hc2 old new = None"
    using commonAncestor_cached_diverges [of hc2 old new] assms(2) d
    by (cases "commonAncestor hc2 old new") auto
  moreover have "commonAncestor hc old new = commonAncestor hc2 old new"
    using g1 g2 assms(2) by (subst commonAncestor.simps) simp
  moreover have "equaliseHeight hc (Number64 old) new = Some (Ok new, hc)"
    using assms(1) by (subst equaliseHeight.simps) simp
  ultimately show ?thesis by (simp add: trimBranch_def)
qed

theorem trimBranch_fork_never_returns_witness:
  "Number64 B = Number64 A \<and> hdr_hash A \<noteq> hdr_hash B \<and>
   fst (GetHeader (newHeaderChain exampleDb) (Parent A) (Number64 A - 1)) = Some G \<and>
   fst (GetHeader (snd (GetHeader (newHeaderChain exampleDb) (Parent A) (Number64 A - 1)))
          (Parent B) (Number64 B - 1)) = Some G \<and>
   trimBranch (newHeaderChain exampleDb) A B = None"
proof -
  have a: "Number64 B = Number64 A" "hdr_hash A \<noteq> hdr_hash B"
    by (simp_all add: A_def B_def Number64_def)
  have g1: "fst (GetHeader (newHeaderChain exampleDb) (Parent A) (Number64 A - 1)) = Some G"
    by code_simp
  have g2: "fst (GetHeader (snd (GetHeader (newHeaderChain exampleDb) (Parent A) (Number64 A - 1)))
          (Parent B) (Number64 B - 1)) = Some G"
    by code_simp
  from trimBranch_fork_never_returns [of B A "newHeaderChain exampleDb"] a g1 g2
  show ?thesis by simp
qed

subsection \<open>Append: the executor rejects the block\<close>

text \<open>
  C2, as the code has it. If the batch commits and the executor fails, \<^verbatim>\<open>Append\<close> returns
  the executor's error, and the store holds neither the header nor its number. The caches
  are not purged: \<^verbatim>\<open>GetHeaderByHash\<close> then returns nil if the number cache has no entry for
  the hash.
\<close>

theorem Append_executor_failure:
  assumes "batchWrite ev (blockHeader b) = None" and "bcAppend ev b = Some err"
  shows "\<exists>hc'. Append ev hc b = Some (Error err, hc') \<and>
           ReadHeader (headerDb hc') (hdr_hash (blockHeader b)) (Number64 (blockHeader b)) = None \<and>
           ReadHeaderNumber (headerDb hc') (hdr_hash (blockHeader b)) = None \<and>
           (map_of (numberCache hc) (hdr_hash (blockHeader b)) = None \<longrightarrow>
              fst (GetHeaderByHash hc' (hdr_hash (blockHeader b))) = None)"
  using assms
  by (simp add: Append_def Let_def ReadHeader_def ReadHeaderNumber_def DeleteHeader_def
      WriteHeader_def GetHeaderByHash_def GetBlockNumber_def lru_Get_def)

theorem Append_executor_failure_witness:
  "batchWrite rejectEnv (blockHeader (blockOf B)) = None \<and> bcAppend rejectEnv (blockOf B) = Some ''rejected'' \<and>
   map_of (numberCache warmA) (hdr_hash (blockHeader (blockOf B))) = None \<and>
   (\<exists>hc'. Append rejectEnv warmA (blockOf B) = Some (Error ''rejected'', hc') \<and>
           ReadHeader (headerDb hc') (hdr_hash (blockHeader (blockOf B))) (Number64 (blockHeader (blockOf B))) = None \<and>
           ReadHeaderNumber (headerDb hc') (hdr_hash (blockHeader (blockOf B))) = None \<and>
              fst (GetHeaderByHash hc' (hdr_hash (blockHeader (blockOf B)))) = None)"
proof -
  have a: "batchWrite rejectEnv (blockHeader (blockOf B)) = None" by code_simp
  have b: "bcAppend rejectEnv (blockOf B) = Some ''rejected''" by code_simp
  have c: "map_of (numberCache warmA) (hdr_hash (blockHeader (blockOf B))) = None" by code_simp
  from Append_executor_failure [OF a b, of warmA] a b c show ?thesis by simp
qed

text \<open>
  The claim as written fails when the caches hold the header: \<open>A\<close> is appended, read by
  hash, and appended again with an executor that rejects it. The store no longer has \<open>A\<close>,
  and \<^verbatim>\<open>GetHeaderByHash\<close> still returns it.
\<close>

theorem Append_executor_failure_cached_counterexample:
  "map_option fst (Append okEnv (newHeaderChain (WriteHeader emptyDb G)) (blockOf A)) = Some (Ok ()) \<and>
   map_option fst (Append rejectEnv warmA (blockOf A)) = Some (Error ''rejected'') \<and>
   fst (GetHeaderByHash (snd (the (Append rejectEnv warmA (blockOf A)))) (hdr_hash (blockHeader (blockOf A)))) = Some A"
  by code_simp

subsection \<open>Append: the head queue\<close>



lemma pushHead_sorted:
  "sort_contract (sortSlice ev) \<Longrightarrow> sorted (map Number64 (heads (pushHead ev hc hdr)))"
proof -
  assume "sort_contract (sortSlice ev)"
  then have "sorted_wrt (\<lambda>a b. \<not> headsLess b a) (heads (pushHead ev hc hdr))"
    by (simp add: pushHead_def sort_contract_def)
  then show ?thesis
    by (simp add: sorted_map headsLess_def not_less)
qed


text \<open>What an \<^verbatim>\<open>Append\<close> that returns nil does to the queue.\<close>

lemma Append_Ok_heads:
  assumes "Append ev hc b = Some (Ok u, hc')"
  shows "\<exists>hc2. hc' = pushHead ev hc2 (blockHeader b) \<and>
           heads hc2 = (if length (heads hc) = maxHeadsQueueLimit ev then tl (heads hc) else heads hc)
           \<and> (length (heads hc) = maxHeadsQueueLimit ev \<longrightarrow> heads hc \<noteq> [])"
  using assms
  by (auto simp: Append_def Let_def split: option.splits if_splits prod.splits result.splits
      dest!: trimBranch_heads)






lemma sorted_Number64_Number:
  assumes "sorted (map Number64 xs)" and "\<forall>h\<in>set xs. 0 \<le> Number h \<and> Number h < 2 ^ 64"
  shows "sorted (map Number xs)"
proof -
  have u: "\<And>h. h \<in> set xs \<Longrightarrow> uint (Number64 h) = Number h"
    using assms(2) by (simp add: Number64_def Uint64_def uint_word_of_int take_bit_int_eq_self)
  from assms(1) have "sorted_wrt (\<lambda>a b. uint (Number64 a) \<le> uint (Number64 b)) xs"
    by (simp add: sorted_map word_le_def)
  then have "sorted_wrt (\<lambda>a b. Number a \<le> Number b) xs"
    by (rule sorted_wrt_mono_rel [rotated]) (simp add: u)
  then show ?thesis by (simp add: sorted_map)
qed


text \<open>
  C4, as the code has it. After every \<^verbatim>\<open>Append\<close> that returns nil the head queue is sorted
  ascending by the \<^verbatim>\<open>Uint64()\<close> of the number, which is what the comparator reads, and so by
  the number itself when the numbers of the queue fit 64 bits. This holds for every sort that
  meets the contract of \<^verbatim>\<open>sort.Slice\<close>; the contract says nothing about the order of headers
  with equal numbers.
\<close>

theorem Append_sorted:
  assumes "sort_contract (sortSlice ev)" and "Append ev hc b = Some (Ok u, hc')"
  shows "sorted (map Number64 (heads hc')) \<and>
         ((\<forall>h\<in>set (heads hc'). 0 \<le> Number h \<and> Number h < 2 ^ 64) \<longrightarrow>
            sorted (map Number (heads hc')))"
proof -
  have "sorted (map Number64 (heads hc'))"
    using Append_Ok_heads [OF assms(2)] pushHead_sorted [OF assms(1)] by auto
  then show ?thesis
    using sorted_Number64_Number by blast
qed

theorem Append_sorted_witness:
  "sort_contract (sortSlice okEnv) \<and>
   map_option fst (Append okEnv threeHeads (blockOf E)) = Some (Ok ()) \<and>
   heads (snd (the (Append okEnv threeHeads (blockOf E)))) = [C, D, E] \<and>
   0 \<le> Number C \<and> Number C < 2 ^ 64 \<and> 0 \<le> Number D \<and> Number D < 2 ^ 64 \<and>
   0 \<le> Number E \<and> Number E < 2 ^ 64 \<and>
   sorted (map Number64 (heads (snd (the (Append okEnv threeHeads (blockOf E)))))) \<and>
   sorted (map Number (heads (snd (the (Append okEnv threeHeads (blockOf E))))))"
proof -
  have c: "sort_contract (sortSlice okEnv)"
    by (simp add: okEnv_def stableSort_contract)
  have a: "map_option fst (Append okEnv threeHeads (blockOf E)) = Some (Ok ())"
    by code_simp
  have e: "heads (snd (the (Append okEnv threeHeads (blockOf E)))) = [C, D, E]"
    by code_simp
  have r: "0 \<le> Number C \<and> Number C < 2 ^ 64 \<and> 0 \<le> Number D \<and> Number D < 2 ^ 64 \<and>
      0 \<le> Number E \<and> Number E < 2 ^ 64"
    by (simp add: C_def D_def E_def)
  from a have "Append okEnv threeHeads (blockOf E)
      = Some (Ok (), snd (the (Append okEnv threeHeads (blockOf E))))"
    by (cases "Append okEnv threeHeads (blockOf E)") (auto simp: prod_eq_iff)
  from Append_sorted [OF c this] c a e r show ?thesis
    by simp
qed

text \<open>
  The claim as written fails. For a sort that meets the contract and reverses ties: \<open>A\<close> is
  pushed before \<open>B\<close>, both have number 1, and the queue is \<open>[B, A]\<close>. For the sort of the Go
  library up to release 1.18 and a queue of seven: the tips 1 to 6 are pushed in this order
  with number 5, then tip 7 with number 4; the ShellSort pass swaps tip 7 with tip 1, and tip
  1, pushed first, ends behind the tips 2 to 6 of the same number.
\<close>

theorem Append_ties_counterexample:
  "sort_contract (sortSlice reversingEnv) \<and> Number A = Number B \<and>
   map_option heads
     (AppendAll reversingEnv (newHeaderChain (WriteHeader emptyDb G)) [blockOf A, blockOf B])
     = Some [B, A] \<and>
   map_option (map hdr_hash \<circ> heads)
     (AppendAll sevenEnv (newHeaderChain (WriteHeader emptyDb G))
        [blockOf (tip 1 5), blockOf (tip 2 5), blockOf (tip 3 5), blockOf (tip 4 5),
         blockOf (tip 5 5), blockOf (tip 6 5), blockOf (tip 7 4)])
     = Some [7, 2, 3, 4, 5, 6, 1]"
proof -
  have "map_option heads
     (AppendAll reversingEnv (newHeaderChain (WriteHeader emptyDb G)) [blockOf A, blockOf B])
     = Some [B, A]"
    by code_simp
  moreover have "map_option (map hdr_hash \<circ> heads)
     (AppendAll sevenEnv (newHeaderChain (WriteHeader emptyDb G))
        [blockOf (tip 1 5), blockOf (tip 2 5), blockOf (tip 3 5), blockOf (tip 4 5),
         blockOf (tip 5 5), blockOf (tip 6 5), blockOf (tip 7 4)])
     = Some [7, 2, 3, 4, 5, 6, 1]"
    by code_simp
  moreover have "Number A = Number B"
    by (simp add: A_def B_def)
  moreover have "sort_contract (sortSlice reversingEnv)"
    by (simp add: reversingEnv_def reversingSort_contract)
  ultimately show ?thesis
    by simp
qed

subsection \<open>The JSON codec\<close>

lemma rbind_Ok: "rbind m f = Ok y \<longleftrightarrow> (\<exists>x. m = Ok x \<and> f x = Ok y)"
  by (cases m) auto

lemma dec_slice_hash: "dec_slice as_hash (Some (json_slice JHash X)) = Ok X"
  by (cases X) (simp_all add: dec_slice_def json_slice_def as_hash_def list_all_iff map_idI)

lemma dec_slice_address: "dec_slice as_address (Some (json_slice JAddress X)) = Ok X"
  by (cases X) (simp_all add: dec_slice_def json_slice_def as_address_def list_all_iff map_idI)

lemma dec_slice_bloom: "dec_slice as_bloom (Some (json_slice JBloom X)) = Ok X"
  by (cases X) (simp_all add: dec_slice_def json_slice_def as_bloom_def list_all_iff map_idI)

lemma dec_slice_uint64: "dec_slice as_uint64 (Some (json_slice JUint64 X)) = Ok X"
  by (cases X) (simp_all add: dec_slice_def json_slice_def as_uint64_def list_all_iff map_idI)

lemma as_big_json_big: "as_big (json_big x) = Some x"
  by (cases x) (simp_all add: as_big_def json_big_def)

lemma dec_slice_big: "dec_slice as_big (Some (json_slice json_big X)) = Ok X"
  by (cases X) (simp_all add: dec_slice_def json_slice_def as_big_json_big list_all_iff map_idI)

lemma dec_location_enc:
  "dec_location (Some (case l of None \<Rightarrow> JNull | Some b \<Rightarrow> JBytes b)) = Ok l"
  by (cases l) (simp_all add: dec_location_def)

text \<open>What \<^verbatim>\<open>json.Unmarshal\<close> reads back from what \<^verbatim>\<open>json.Marshal\<close> wrote.\<close>

lemma json_Unmarshal_Marshal:
  "json_Unmarshal (json_Marshal e) =
     Ok \<lparr>dec_ParentHash = enc_ParentHash e, dec_UncleHash = enc_UncleHash e,
         dec_Coinbase = enc_Coinbase e, dec_Root = enc_Root e, dec_TxHash = enc_TxHash e,
         dec_ReceiptHash = enc_ReceiptHash e, dec_EtxHash = enc_EtxHash e,
         dec_ManifestHash = enc_ManifestHash e, dec_Bloom = enc_Bloom e,
         dec_Difficulty = enc_Difficulty e, dec_Number = enc_Number e,
         dec_GasLimit = enc_GasLimit e, dec_GasUsed = enc_GasUsed e,
         dec_BaseFee = enc_BaseFee e, dec_Location = enc_Location e, dec_Time = enc_Time e,
         dec_Extra = Some (case enc_Extra e of None \<Rightarrow> [] | Some b \<Rightarrow> b),
         dec_Nonce = enc_Nonce e\<rparr>"
  by (simp add: json_Unmarshal_def json_Marshal_def field_def dec_slice_hash dec_slice_address
      dec_slice_bloom dec_slice_uint64 dec_slice_big dec_location_enc dec_uint64_def
      dec_bytes_def dec_nonce_def)

lemma enc_tier_keeps:
  "enc_tier h i e = Ok e' \<Longrightarrow> enc_ParentHash e' = enc_ParentHash e"
  by (auto simp: enc_tier_def rbind_Ok)

lemma forTiers_enc_keeps:
  "forTiers (enc_tier h) ts e = Ok e' \<Longrightarrow> enc_ParentHash e' = enc_ParentHash e"
  by (induction ts arbitrary: e) (auto simp: rbind_Ok dest: enc_tier_keeps)

lemma forTiers_enc_total:
  "\<forall>i\<in>set ts. i < length (difficulty h) \<and> i < length (number h) \<and> i < length (gasLimit h)
      \<and> i < length (gasUsed h) \<and> i < length (baseFee h) \<Longrightarrow>
   \<exists>e'. forTiers (enc_tier h) ts e = Ok e'"
  by (induction ts arbitrary: e) (auto simp: enc_tier_def slice_index_def)

text \<open>
  C6. The code on any header whose per-tier slices have length \<open>depth\<close>: \<^verbatim>\<open>MarshalJSON\<close>
  returns a document, and \<^verbatim>\<open>UnmarshalJSON\<close> of that document does not return the header but
  the error for a missing \<^verbatim>\<open>parentHash\<close>. \<^verbatim>\<open>copy\<close> into the nil slice \<^verbatim>\<open>enc.ParentHash\<close> copies
  nothing, the field is written as \<^verbatim>\<open>null\<close> and read back as nil.
\<close>

theorem roundtrip_fails:
  assumes "tiers_ok depth h"
  shows "\<exists>js. MarshalJSON depth hashOf h = Ok js \<and>
           UnmarshalJSON depth js = Error ''missing required field 'parentHash' for Header''"
proof -
  let ?e1 = "enc_zero
            \<lparr>enc_Difficulty := Some (replicate depth None),
             enc_Number := Some (replicate depth None),
             enc_GasLimit := Some (replicate depth 0),
             enc_GasUsed := Some (replicate depth 0),
             enc_BaseFee := Some (replicate depth None),
             enc_ParentHash := None, enc_UncleHash := None, enc_Coinbase := None,
             enc_Root := None, enc_TxHash := None, enc_EtxHash := None,
             enc_ManifestHash := None, enc_ReceiptHash := None, enc_Bloom := None\<rparr>"
  from assms have "\<forall>i\<in>set [0..<depth]. i < length (difficulty h) \<and> i < length (number h)
      \<and> i < length (gasLimit h) \<and> i < length (gasUsed h) \<and> i < length (baseFee h)"
    by (simp add: tiers_ok_def)
  from forTiers_enc_total [OF this] obtain e2 where
    l: "forTiers (enc_tier h) [0..<depth] ?e1 = Ok e2" by blast
  from forTiers_enc_keeps [OF l] have n: "enc_ParentHash e2 = None" by simp
  let ?e3 = "e2\<lparr>enc_Location := location h, enc_Time := time h, enc_Extra := extra h,
                     enc_Nonce := nonce h, enc_Hash := hashOf h\<rparr>"
  have m: "MarshalJSON depth hashOf h = Ok (json_Marshal ?e3)"
    using l by (simp add: MarshalJSON_def Let_def copy_def enc_zero_def)
  have "UnmarshalJSON depth (json_Marshal ?e3) = missing ''parentHash''"
    using n by (simp add: UnmarshalJSON_def json_Unmarshal_Marshal)
  with m show ?thesis by (simp add: missing_def)
qed

theorem roundtrip_fails_witness:
  "tiers_ok 1 exampleHeader \<and>
   (\<exists>js. MarshalJSON 1 (\<lambda>h. 77) exampleHeader = Ok js \<and>
      UnmarshalJSON 1 js = Error ''missing required field 'parentHash' for Header'')"
  using roundtrip_fails [of 1 exampleHeader "\<lambda>h. 77"]
  by (simp add: tiers_ok_def exampleHeader_def)

text \<open>
  C9. The code at three documents of depth 1. Without the key \<^verbatim>\<open>location\<close>, and every other
  field valid, \<^verbatim>\<open>UnmarshalJSON\<close> succeeds and leaves the location nil. With the valid
  timestamp 0 it reports the timestamp as missing. Without \<^verbatim>\<open>baseFeePerGas\<close> the error
  names a field \<^verbatim>\<open>baseFee\<close>.
\<close>

theorem UnmarshalJSON_required_fields:
  "field (without ''location'' exampleObject) ''location'' = None \<and>
   UnmarshalJSON 1 (JObject (without ''location'' exampleObject))
     = Ok (exampleHeader\<lparr>location := None\<rparr>) \<and>
   field (without ''timestamp'' exampleObject @ [(''timestamp'', JUint64 0)]) ''timestamp''
     = Some (JUint64 0) \<and>
   UnmarshalJSON 1 (JObject (without ''timestamp'' exampleObject @ [(''timestamp'', JUint64 0)]))
     = Error ''missing required field 'timestamp' for Header'' \<and>
   field (without ''baseFeePerGas'' exampleObject) ''baseFeePerGas'' = None \<and>
   UnmarshalJSON 1 (JObject (without ''baseFeePerGas'' exampleObject))
     = Error ''missing required field 'baseFee' for Header''"
  by code_simp

end
